theory Spec2Isabelle
  imports Main "HOL-Library.Sublist"
begin

text \<open>
  A model of \<^verbatim>\<open>src/freecad_mcp/server.py\<close>: the connection object and its guard for
  screenshots, the connection singleton, the envelope builder, and the twenty-one tools the
  server registers. The remote FreeCAD, the Python runtime and the texts of the sketch
  scripts are parameters. Logging changes nothing a tool returns and no state the tools
  read, and is left out.
\<close>

section \<open>Values, exceptions and the Python runtime\<close>

text \<open>
  The server talks to FreeCAD over XML-RPC. What comes back from a remote call is an
  arbitrary XML-RPC value: the type hints of \<^verbatim>\<open>FreeCADConnection\<close> are not enforced by
  Python, so the model lets the remote answer with any value and follows what the source
  does with it (subscripting, \<^verbatim>\<open>.get\<close>, truth tests, \<^verbatim>\<open>in\<close>).
  A float is kept as mantissa and binary exponent; the source only ever tests a float for
  truth or renders it as text.
\<close>

datatype pyfloat = Finite int int | Infinite bool | NaN

datatype pyval =
    PNone
  | PBool bool
  | PInt int
  | PFloat pyfloat
  | PStr string
  | PList "pyval list"
  | PDict "(string \<times> pyval) list"
  | PObject string

text \<open>
  Exceptions. \<open>Raised m\<close> is an exception whose \<^verbatim>\<open>str(e)\<close> is \<open>m\<close>: the
  \<^verbatim>\<open>Exception(...)\<close> the source raises itself, and whatever the XML-RPC transport raises
  (a refused connection, a fault, a protocol error). The other three are raised by the
  interpreter when the source applies an operation to a value that does not support it.
  All of them are subclasses of \<^verbatim>\<open>Exception\<close>, so every \<^verbatim>\<open>except Exception\<close> of the source
  catches every value of this type; \<^verbatim>\<open>KeyboardInterrupt\<close> and \<^verbatim>\<open>SystemExit\<close> are not modelled.
\<close>

datatype exn =
    Raised string
  | KeyError string
  | TypeError string pyval
  | AttributeError string pyval

text \<open>
  What the source takes from the Python runtime and its libraries rather than from this
  repository: \<^verbatim>\<open>str()\<close> of a value that is not a string, \<^verbatim>\<open>json.dumps\<close> (which may raise),
  the wording of interpreter-generated error messages, and the text of the FreeCAD scripts
  that the sketch tools assemble from their arguments (building one may raise, as the
  point list of \<^verbatim>\<open>sketch_add_polyline\<close> shows). They are parameters of the model.
\<close>

record pylib =
  str_of :: "pyval \<Rightarrow> string"
  json_dumps :: "pyval \<Rightarrow> exn + string"
  interp_text :: "exn \<Rightarrow> string"
  script :: "string \<Rightarrow> pyval list \<Rightarrow> exn + string"

definition str_exn :: "pylib \<Rightarrow> exn \<Rightarrow> string" where
  "str_exn L e =
     (case e of
        Raised m \<Rightarrow> m
      | KeyError k \<Rightarrow> [CHR 0x27] @ k @ [CHR 0x27]
      | _ \<Rightarrow> interp_text L e)"

text \<open>
  A value inside an f-string: a string is inserted as it is, anything else through
  \<^verbatim>\<open>str()\<close>.
\<close>

definition fmt :: "pylib \<Rightarrow> pyval \<Rightarrow> string" where
  "fmt L v = (case v of PStr s \<Rightarrow> s | _ \<Rightarrow> str_of L v)"

fun truthy :: "pyval \<Rightarrow> bool" where
  "truthy PNone = False"
| "truthy (PBool b) = b"
| "truthy (PInt i) = (i \<noteq> 0)"
| "truthy (PFloat (Finite m e)) = (m \<noteq> 0)"
| "truthy (PFloat (Infinite sg)) = True"
| "truthy (PFloat NaN) = True"
| "truthy (PStr s) = (s \<noteq> [])"
| "truthy (PList xs) = (xs \<noteq> [])"
| "truthy (PDict kvs) = (kvs \<noteq> [])"
| "truthy (PObject c) = True"

text \<open>
  \<^verbatim>\<open>v[key]\<close> for a string key: a dictionary is looked up and a missing key raises; no
  other value accepts a string subscript.
\<close>

definition subscript :: "pyval \<Rightarrow> string \<Rightarrow> exn + pyval" where
  "subscript v k =
     (case v of
        PDict kvs \<Rightarrow> (case map_of kvs k of Some x \<Rightarrow> Inr x | None \<Rightarrow> Inl (KeyError k))
      | _ \<Rightarrow> Inl (TypeError ''subscript'' v))"

text \<open>\<^verbatim>\<open>v.get(key, default)\<close>: only a dictionary has the method.\<close>

definition dict_get :: "pyval \<Rightarrow> string \<Rightarrow> pyval \<Rightarrow> exn + pyval" where
  "dict_get v k dflt =
     (case v of
        PDict kvs \<Rightarrow> (case map_of kvs k of Some x \<Rightarrow> Inr x | None \<Rightarrow> Inr dflt)
      | _ \<Rightarrow> Inl (AttributeError ''get'' v))"

text \<open>
  \<^verbatim>\<open>needle in v\<close> for a string \<open>needle\<close>: substring of a string, element of a list,
  key of a dictionary; the other values are not containers.
\<close>

definition py_in :: "string \<Rightarrow> pyval \<Rightarrow> exn + bool" where
  "py_in needle v =
     (case v of
        PStr s \<Rightarrow> Inr (sublist needle s)
      | PList xs \<Rightarrow> Inr (PStr needle \<in> set xs)
      | PDict kvs \<Rightarrow> Inr (needle \<in> fst ` set kvs)
      | _ \<Rightarrow> Inl (TypeError ''in'' v))"

section \<open>Feedback items, requests and the process state\<close>

text \<open>
  \<^verbatim>\<open>TextContent(type="text", text=t)\<close> and \<^verbatim>\<open>ImageContent(type="image", data=d, mimeType=m)\<close>.
  The source passes the remote's answer as \<open>data\<close> unchanged, so the field holds a value.
\<close>

datatype content = TextContent string | ImageContent pyval string

text \<open>One constructor for each method the source calls on its \<^verbatim>\<open>ServerProxy\<close>.\<close>

datatype request =
    RPing
  | RCreateDocument string
  | RCreateObject string pyval
  | REditObject string string pyval
  | RDeleteObject string string
  | RInsertPartFromLibrary string
  | RExecuteCode string
  | RGetActiveScreenshot string
  | RGetObjects string
  | RGetObject string string
  | RGetPartsList

text \<open>
  The remote endpoint is stateful and outside the program: its answer to a request is an
  arbitrary function of the requests made before and of the request itself, and is either
  an exception raised by the call or the value returned.
\<close>

type_synonym remote = "request list \<Rightarrow> request \<Rightarrow> exn + pyval"

text \<open>
  An instance of \<^verbatim>\<open>class FreeCADConnection\<close>. \<open>ident\<close> is the identity of the Python
  object, so that two instances built with the same address are still two handles.
\<close>

record FreeCADConnection =
  host :: string
  port :: nat
  ident :: nat

text \<open>
  The process state: the two module globals \<^verbatim>\<open>_freecad_connection\<close> and
  \<^verbatim>\<open>_only_text_feedback\<close>, the list objects the handlers build (a store from addresses to
  contents, because \<^verbatim>\<open>add_screenshot_if_available\<close> mutates its argument and returns it),
  the next unused object identity, and the requests made on the proxy so far, oldest first.
\<close>

record state =
  freecad_connection :: "FreeCADConnection option"
  only_text_feedback :: bool
  heap :: "nat \<Rightarrow> content list option"
  next_id :: nat
  calls :: "request list"

text \<open>A statement sequence: it runs in a state and ends by raising or by returning a value.\<close>

type_synonym 'a action = "state \<Rightarrow> (exn + 'a) \<times> state"

definition ret :: "'a \<Rightarrow> 'a action" where
  "ret x s = (Inr x, s)"

definition raise :: "exn \<Rightarrow> 'a action" where
  "raise e s = (Inl e, s)"

definition lift :: "exn + 'a \<Rightarrow> 'a action" where
  "lift r s = (r, s)"

definition seq :: "'a action \<Rightarrow> ('a \<Rightarrow> 'b action) \<Rightarrow> 'b action" where
  "seq m f s = (case m s of (Inl e, s') \<Rightarrow> (Inl e, s') | (Inr x, s') \<Rightarrow> f x s')"

text \<open>\<^verbatim>\<open>try: m except Exception as e: h e\<close>\<close>

definition try_except :: "'a action \<Rightarrow> (exn \<Rightarrow> 'a action) \<Rightarrow> 'a action" where
  "try_except m h s = (case m s of (Inl e, s') \<Rightarrow> h e s' | (Inr x, s') \<Rightarrow> (Inr x, s'))"

definition call :: "remote \<Rightarrow> request \<Rightarrow> pyval action" where
  "call R q s = (R (calls s) q, s\<lparr>calls := calls s @ [q]\<rparr>)"

text \<open>
  A list display \<^verbatim>\<open>[a, b]\<close> creates a new list object; \<^verbatim>\<open>xs.append(x)\<close> changes one in
  place. An address at which the store holds no list stands for an object that is not a
  list, which has no \<^verbatim>\<open>append\<close>.
\<close>

definition new_list :: "content list \<Rightarrow> nat action" where
  "new_list items s =
     (Inr (next_id s), s\<lparr>heap := (heap s)(next_id s \<mapsto> items), next_id := Suc (next_id s)\<rparr>)"

definition list_append :: "nat \<Rightarrow> content \<Rightarrow> unit action" where
  "list_append r x s =
     (case heap s r of
        Some xs \<Rightarrow> (Inr (), s\<lparr>heap := (heap s)(r \<mapsto> xs @ [x])\<rparr>)
      | None \<Rightarrow> (Inl (AttributeError ''append'' PNone), s))"

text \<open>
  What the caller of a tool receives when the tool returns the list object at \<open>r\<close>: the
  items of the list. Every address a tool returns was allocated by that tool, so the other
  branch is never taken by a tool; it stands for a return value that is no item sequence.
\<close>

definition returned :: "nat \<Rightarrow> content list action" where
  "returned r s =
     (case heap s r of
        Some xs \<Rightarrow> (Inr xs, s)
      | None \<Rightarrow> (Inl (TypeError ''return'' PNone), s))"

section \<open>class FreeCADConnection\<close>

definition ping :: "remote \<Rightarrow> FreeCADConnection \<Rightarrow> pyval action" where
  "ping R self = call R RPing"

definition conn_create_document :: "remote \<Rightarrow> FreeCADConnection \<Rightarrow> string \<Rightarrow> pyval action" where
  "conn_create_document R self name = call R (RCreateDocument name)"

definition conn_create_object ::
  "remote \<Rightarrow> FreeCADConnection \<Rightarrow> string \<Rightarrow> pyval \<Rightarrow> pyval action" where
  "conn_create_object R self doc_name obj_data = call R (RCreateObject doc_name obj_data)"

definition conn_edit_object ::
  "remote \<Rightarrow> FreeCADConnection \<Rightarrow> string \<Rightarrow> string \<Rightarrow> pyval \<Rightarrow> pyval action" where
  "conn_edit_object R self doc_name obj_name obj_data =
     call R (REditObject doc_name obj_name obj_data)"

definition conn_delete_object ::
  "remote \<Rightarrow> FreeCADConnection \<Rightarrow> string \<Rightarrow> string \<Rightarrow> pyval action" where
  "conn_delete_object R self doc_name obj_name = call R (RDeleteObject doc_name obj_name)"

definition conn_insert_part_from_library ::
  "remote \<Rightarrow> FreeCADConnection \<Rightarrow> string \<Rightarrow> pyval action" where
  "conn_insert_part_from_library R self relative_path =
     call R (RInsertPartFromLibrary relative_path)"

definition conn_execute_code :: "remote \<Rightarrow> FreeCADConnection \<Rightarrow> string \<Rightarrow> pyval action" where
  "conn_execute_code R self code = call R (RExecuteCode code)"

definition conn_get_objects :: "remote \<Rightarrow> FreeCADConnection \<Rightarrow> string \<Rightarrow> pyval action" where
  "conn_get_objects R self doc_name = call R (RGetObjects doc_name)"

definition conn_get_object ::
  "remote \<Rightarrow> FreeCADConnection \<Rightarrow> string \<Rightarrow> string \<Rightarrow> pyval action" where
  "conn_get_object R self doc_name obj_name = call R (RGetObject doc_name obj_name)"

definition conn_get_parts_list :: "remote \<Rightarrow> FreeCADConnection \<Rightarrow> pyval action" where
  "conn_get_parts_list R self = call R RGetPartsList"

text \<open>
  The script \<^verbatim>\<open>get_active_screenshot\<close> sends first. It runs in FreeCAD, not here; what it
  prints comes back in the \<^verbatim>\<open>message\<close> of the answer. Its three outcomes print three
  different lines.
\<close>

definition unlines :: "string list \<Rightarrow> string" where
  "unlines ls = concat (map (\<lambda>l. l @ [CHR 0x0A]) ls)"

definition view_check_script :: string where
  \<open>view_check_script = [CHR 0x0A] @ unlines
    [''import FreeCAD'',
     ''import FreeCADGui'',
     '''',
     ''if FreeCAD.Gui.ActiveDocument and FreeCAD.Gui.ActiveDocument.ActiveView:'',
     ''    view_type = type(FreeCAD.Gui.ActiveDocument.ActiveView).__name__'',
     ''    '',
     ''    # These view types don't support screenshots'',
     ''    unsupported_views = ['SpreadsheetGui::SheetView', 'DrawingGui::DrawingView', 'TechDrawGui::MDIViewPage']'',
     ''    '',
     ''    if view_type in unsupported_views or not hasattr(FreeCAD.Gui.ActiveDocument.ActiveView, 'saveImage'):'',
     ''        print("Current view does not support screenshots")'',
     ''        False'',
     ''    else:'',
     ''        print(f"Current view supports screenshots: {view_type}")'',
     ''        True'',
     ''else:'',
     ''    print("No active view")'',
     ''    False'']\<close>

definition get_active_screenshot ::
  "remote \<Rightarrow> FreeCADConnection \<Rightarrow> string \<Rightarrow> pyval action" where
  "get_active_screenshot R self view_name =
     try_except
       (seq (call R (RExecuteCode view_check_script)) (\<lambda>result.
        seq (lift (dict_get result ''success'' (PBool False))) (\<lambda>success.
          if \<not> truthy success then ret PNone
          else
            seq (lift (dict_get result ''message'' (PStr ''''))) (\<lambda>message.
            seq (lift (py_in ''Current view does not support screenshots'' message))
              (\<lambda>unsupported.
                if unsupported then ret PNone
                else call R (RGetActiveScreenshot view_name))))))
       (\<lambda>e. ret PNone)"

section \<open>The connection singleton\<close>

text \<open>
  \<^verbatim>\<open>FreeCADConnection(host="localhost", port=9875)\<close> creates a new object; building the
  proxy makes no request. The function ends with \<^verbatim>\<open>return _freecad_connection\<close>, which
  at that point is the handle found or the handle just built.
\<close>

definition new_connection :: "string \<Rightarrow> nat \<Rightarrow> FreeCADConnection action" where
  "new_connection h p s =
     (Inr \<lparr>host = h, port = p, ident = next_id s\<rparr>, s\<lparr>next_id := Suc (next_id s)\<rparr>)"

definition set_connection :: "FreeCADConnection option \<Rightarrow> unit action" where
  "set_connection c s = (Inr (), s\<lparr>freecad_connection := c\<rparr>)"

definition get_freecad_connection :: "remote \<Rightarrow> FreeCADConnection action" where
  "get_freecad_connection R s =
     (case freecad_connection s of
        Some c \<Rightarrow> ret c s
      | None \<Rightarrow>
          seq (new_connection ''localhost'' 9875) (\<lambda>c.
          seq (set_connection (Some c)) (\<lambda>_.
          seq (ping R c) (\<lambda>alive.
            if \<not> truthy alive then
              seq (set_connection None) (\<lambda>_.
                raise (Raised
                  ''Failed to connect to FreeCAD. Make sure the FreeCAD addon is running.''))
            else ret c))) s)"

section \<open>The envelope builder\<close>

definition note_text :: string where
  "note_text =
     ''Note: Visual preview is unavailable in the current view type (such as TechDraw or Spreadsheet). '' @
     ''Switch to a 3D view to see visual feedback.''"

definition add_screenshot_if_available :: "nat \<Rightarrow> pyval \<Rightarrow> nat action" where
  "add_screenshot_if_available response screenshot s =
     (if screenshot \<noteq> PNone \<and> \<not> only_text_feedback s then
        seq (list_append response (ImageContent screenshot ''image/png'')) (\<lambda>_. ret response) s
      else if \<not> only_text_feedback s then
        seq (list_append response (TextContent note_text)) (\<lambda>_. ret response) s
      else ret response s)"

section \<open>The tools\<close>

definition quoted :: "string \<Rightarrow> string" where
  "quoted t = [CHR 0x27] @ t @ [CHR 0x27]"

text \<open>
  A tool that returns a list display at once (\<^verbatim>\<open>return [TextContent(...)]\<close>) hands its
  caller that list; nothing else ever holds it, so it is returned by value.
\<close>

definition create_document :: "pylib \<Rightarrow> remote \<Rightarrow> string \<Rightarrow> content list action" where
  "create_document L R name =
     seq (get_freecad_connection R) (\<lambda>freecad.
       try_except
         (seq (conn_create_document R freecad name) (\<lambda>res.
          seq (lift (subscript res ''success'')) (\<lambda>success.
            if truthy success then
              seq (lift (subscript res ''document_name'')) (\<lambda>document_name.
                ret [TextContent
                  (''Document '' @ quoted (fmt L document_name) @ '' created successfully'')])
            else
              seq (lift (subscript res ''error'')) (\<lambda>error.
                ret [TextContent (''Failed to create document: '' @ fmt L error)]))))
         (\<lambda>e. ret [TextContent (''Failed to create document: '' @ str_exn L e)]))"

text \<open>
  Sixteen tools end with the same statements: test \<^verbatim>\<open>res["success"]\<close>, build a one-item
  list with the success text or with the failure label followed by \<^verbatim>\<open>res['error']\<close>, and
  return \<^verbatim>\<open>add_screenshot_if_available(response, screenshot)\<close>. \<open>report\<close> is that tail;
  \<open>ok_text\<close> is the outcome of evaluating the success f-string, which may subscript
  \<open>res\<close> and so may raise; it is only looked at on the success branch.
\<close>

definition report ::
  "pylib \<Rightarrow> pyval \<Rightarrow> pyval \<Rightarrow> exn + string \<Rightarrow> string \<Rightarrow> content list action" where
  "report L res screenshot ok_text label =
     seq (lift (subscript res ''success'')) (\<lambda>success.
       if truthy success then
         seq (lift ok_text) (\<lambda>t.
         seq (new_list [TextContent t]) (\<lambda>response.
         seq (add_screenshot_if_available response screenshot) returned))
       else
         seq (lift (subscript res ''error'')) (\<lambda>error.
         seq (new_list [TextContent (label @ fmt L error)]) (\<lambda>response.
         seq (add_screenshot_if_available response screenshot) returned)))"

definition create_object ::
  "pylib \<Rightarrow> remote \<Rightarrow> string \<Rightarrow> string \<Rightarrow> string \<Rightarrow> pyval \<Rightarrow> pyval \<Rightarrow> content list action" where
  "create_object L R doc_name obj_type obj_name analysis_name obj_properties =
     seq (get_freecad_connection R) (\<lambda>freecad.
       try_except
         (let obj_data = PDict
                [(''Name'', PStr obj_name),
                 (''Type'', PStr obj_type),
                 (''Properties'', if truthy obj_properties then obj_properties else PDict []),
                 (''Analysis'', analysis_name)]
          in seq (conn_create_object R freecad doc_name obj_data) (\<lambda>res.
             seq (get_active_screenshot R freecad ''Isometric'') (\<lambda>screenshot.
               report L res screenshot
                 (map_sum id
                    (\<lambda>object_name. ''Object '' @ quoted (fmt L object_name) @ '' created successfully'')
                    (subscript res ''object_name''))
                 ''Failed to create object: '')))
         (\<lambda>e. ret [TextContent (''Failed to create object: '' @ str_exn L e)]))"

definition edit_object ::
  "pylib \<Rightarrow> remote \<Rightarrow> string \<Rightarrow> string \<Rightarrow> pyval \<Rightarrow> content list action" where
  "edit_object L R doc_name obj_name obj_properties =
     seq (get_freecad_connection R) (\<lambda>freecad.
       try_except
         (seq (conn_edit_object R freecad doc_name obj_name
                 (PDict [(''Properties'', obj_properties)])) (\<lambda>res.
          seq (get_active_screenshot R freecad ''Isometric'') (\<lambda>screenshot.
            report L res screenshot
              (map_sum id
                 (\<lambda>object_name. ''Object '' @ quoted (fmt L object_name) @ '' edited successfully'')
                 (subscript res ''object_name''))
              ''Failed to edit object: '')))
         (\<lambda>e. ret [TextContent (''Failed to edit object: '' @ str_exn L e)]))"

definition delete_object ::
  "pylib \<Rightarrow> remote \<Rightarrow> string \<Rightarrow> string \<Rightarrow> content list action" where
  "delete_object L R doc_name obj_name =
     seq (get_freecad_connection R) (\<lambda>freecad.
       try_except
         (seq (conn_delete_object R freecad doc_name obj_name) (\<lambda>res.
          seq (get_active_screenshot R freecad ''Isometric'') (\<lambda>screenshot.
            report L res screenshot
              (map_sum id
                 (\<lambda>object_name. ''Object '' @ quoted (fmt L object_name) @ '' deleted successfully'')
                 (subscript res ''object_name''))
              ''Failed to delete object: '')))
         (\<lambda>e. ret [TextContent (''Failed to delete object: '' @ str_exn L e)]))"

definition execute_code :: "pylib \<Rightarrow> remote \<Rightarrow> string \<Rightarrow> content list action" where
  "execute_code L R code =
     seq (get_freecad_connection R) (\<lambda>freecad.
       try_except
         (seq (conn_execute_code R freecad code) (\<lambda>res.
          seq (get_active_screenshot R freecad ''Isometric'') (\<lambda>screenshot.
            report L res screenshot
              (map_sum id
                 (\<lambda>message. ''Code executed successfully: '' @ fmt L message)
                 (subscript res ''message''))
              ''Failed to execute code: '')))
         (\<lambda>e. ret [TextContent (''Failed to execute code: '' @ str_exn L e)]))"

definition get_view :: "remote \<Rightarrow> string \<Rightarrow> content list action" where
  "get_view R view_name =
     seq (get_freecad_connection R) (\<lambda>freecad.
     seq (get_active_screenshot R freecad view_name) (\<lambda>screenshot.
       if screenshot \<noteq> PNone then ret [ImageContent screenshot ''image/png'']
       else ret [TextContent
         ''Cannot get screenshot in the current view type (such as TechDraw or Spreadsheet)'']))"

definition insert_part_from_library :: "pylib \<Rightarrow> remote \<Rightarrow> string \<Rightarrow> content list action" where
  "insert_part_from_library L R relative_path =
     seq (get_freecad_connection R) (\<lambda>freecad.
       try_except
         (seq (conn_insert_part_from_library R freecad relative_path) (\<lambda>res.
          seq (get_active_screenshot R freecad ''Isometric'') (\<lambda>screenshot.
            report L res screenshot
              (map_sum id
                 (\<lambda>message. ''Part inserted from library: '' @ fmt L message)
                 (subscript res ''message''))
              ''Failed to insert part from library: '')))
         (\<lambda>e. ret [TextContent (''Failed to insert part from library: '' @ str_exn L e)]))"

definition get_objects :: "pylib \<Rightarrow> remote \<Rightarrow> string \<Rightarrow> content list action" where
  "get_objects L R doc_name =
     seq (get_freecad_connection R) (\<lambda>freecad.
       try_except
         (seq (get_active_screenshot R freecad ''Isometric'') (\<lambda>screenshot.
          seq (conn_get_objects R freecad doc_name) (\<lambda>objs.
          seq (lift (json_dumps L objs)) (\<lambda>t.
          seq (new_list [TextContent t]) (\<lambda>response.
          seq (add_screenshot_if_available response screenshot) returned)))))
         (\<lambda>e. ret [TextContent (''Failed to get objects: '' @ str_exn L e)]))"

definition get_object :: "pylib \<Rightarrow> remote \<Rightarrow> string \<Rightarrow> string \<Rightarrow> content list action" where
  "get_object L R doc_name obj_name =
     seq (get_freecad_connection R) (\<lambda>freecad.
       try_except
         (seq (get_active_screenshot R freecad ''Isometric'') (\<lambda>screenshot.
          seq (conn_get_object R freecad doc_name obj_name) (\<lambda>obj.
          seq (lift (json_dumps L obj)) (\<lambda>t.
          seq (new_list [TextContent t]) (\<lambda>response.
          seq (add_screenshot_if_available response screenshot) returned)))))
         (\<lambda>e. ret [TextContent (''Failed to get object: '' @ str_exn L e)]))"

definition get_parts_list :: "pylib \<Rightarrow> remote \<Rightarrow> content list action" where
  "get_parts_list L R =
     seq (get_freecad_connection R) (\<lambda>freecad.
     seq (conn_get_parts_list R freecad) (\<lambda>parts.
       if truthy parts then
         seq (lift (json_dumps L parts)) (\<lambda>t. ret [TextContent t])
       else ret [TextContent
         ''No parts found in the parts library. You must add parts_library addon.'']))"

subsection \<open>The sketch tools\<close>

text \<open>
  The eleven sketch tools have one body: inside the \<^verbatim>\<open>try\<close>, assemble a FreeCAD script
  from the arguments, send it with \<^verbatim>\<open>execute_code\<close>, ask for a screenshot and report.
  They differ in the script, the success text and the failure label. The script text is
  an opaque payload (\<open>script L\<close>, named by the tool and given the tool's arguments);
  the success texts and the labels are the source's.
\<close>

definition run_script ::
  "pylib \<Rightarrow> remote \<Rightarrow> (exn + string) \<Rightarrow> string \<Rightarrow> string \<Rightarrow> content list action" where
  "run_script L R code ok_text label =
     seq (get_freecad_connection R) (\<lambda>freecad.
       try_except
         (seq (lift code) (\<lambda>code.
          seq (conn_execute_code R freecad code) (\<lambda>res.
          seq (get_active_screenshot R freecad ''Isometric'') (\<lambda>screenshot.
            report L res screenshot (Inr ok_text) label))))
         (\<lambda>e. ret [TextContent (label @ str_exn L e)]))"

definition pair_text :: "pylib \<Rightarrow> pyfloat \<Rightarrow> pyfloat \<Rightarrow> string" where
  "pair_text L x y = ''('' @ fmt L (PFloat x) @ '', '' @ fmt L (PFloat y) @ '')''"

definition create_sketch ::
  "pylib \<Rightarrow> remote \<Rightarrow> string \<Rightarrow> string \<Rightarrow> string \<Rightarrow> pyval \<Rightarrow> content list action" where
  "create_sketch L R doc_name sketch_name plane body_name =
     run_script L R
       (if truthy body_name
        then script L ''create_sketch in body''
               [PStr doc_name, PStr sketch_name, PStr plane, body_name]
        else script L ''create_sketch standalone'' [PStr doc_name, PStr sketch_name, PStr plane])
       (''Sketch '' @ quoted sketch_name @ '' created successfully on '' @ plane @ '' plane'')
       ''Failed to create sketch: ''"

definition sketch_add_point ::
  "pylib \<Rightarrow> remote \<Rightarrow> string \<Rightarrow> string \<Rightarrow> pyfloat \<Rightarrow> pyfloat \<Rightarrow> content list action" where
  "sketch_add_point L R doc_name sketch_name x y =
     run_script L R
       (script L ''sketch_add_point'' [PStr doc_name, PStr sketch_name, PFloat x, PFloat y])
       (''Point added to sketch '' @ quoted sketch_name @ '' at '' @ pair_text L x y)
       ''Failed to add point: ''"

definition sketch_add_line ::
  "pylib \<Rightarrow> remote \<Rightarrow> string \<Rightarrow> string \<Rightarrow> pyfloat \<Rightarrow> pyfloat \<Rightarrow> pyfloat \<Rightarrow> pyfloat \<Rightarrow>
   content list action" where
  "sketch_add_line L R doc_name sketch_name x1 y1 x2 y2 =
     run_script L R
       (script L ''sketch_add_line''
          [PStr doc_name, PStr sketch_name, PFloat x1, PFloat y1, PFloat x2, PFloat y2])
       (''Line added to sketch '' @ quoted sketch_name @ '' from '' @ pair_text L x1 y1 @
        '' to '' @ pair_text L x2 y2)
       ''Failed to add line: ''"

definition sketch_add_circle ::
  "pylib \<Rightarrow> remote \<Rightarrow> string \<Rightarrow> string \<Rightarrow> pyfloat \<Rightarrow> pyfloat \<Rightarrow> pyfloat \<Rightarrow> content list action" where
  "sketch_add_circle L R doc_name sketch_name center_x center_y radius =
     run_script L R
       (script L ''sketch_add_circle''
          [PStr doc_name, PStr sketch_name, PFloat center_x, PFloat center_y, PFloat radius])
       (''Circle added to sketch '' @ quoted sketch_name @ '' with center at '' @
        pair_text L center_x center_y @ '' and radius '' @ fmt L (PFloat radius))
       ''Failed to add circle: ''"

text \<open>
  In the source file the character after each angle in the success text of
  \<^verbatim>\<open>sketch_add_arc\<close> is the code point U+C9F8. A \<open>char\<close> is a byte, so it is written
  here as its three UTF-8 bytes.
\<close>

definition angle_mark :: string where
  "angle_mark = [CHR 0xEC, CHR 0xA7, CHR 0xB8]"

definition sketch_add_arc ::
  "pylib \<Rightarrow> remote \<Rightarrow> string \<Rightarrow> string \<Rightarrow> pyfloat \<Rightarrow> pyfloat \<Rightarrow> pyfloat \<Rightarrow> pyfloat \<Rightarrow> pyfloat \<Rightarrow>
   content list action" where
  "sketch_add_arc L R doc_name sketch_name center_x center_y radius start_angle end_angle =
     run_script L R
       (script L ''sketch_add_arc''
          [PStr doc_name, PStr sketch_name, PFloat center_x, PFloat center_y, PFloat radius,
           PFloat start_angle, PFloat end_angle])
       (''Arc added to sketch '' @ quoted sketch_name @ '' with center at '' @
        pair_text L center_x center_y @ '', radius '' @ fmt L (PFloat radius) @
        '', from '' @ fmt L (PFloat start_angle) @ angle_mark @
        '' to '' @ fmt L (PFloat end_angle) @ angle_mark)
       ''Failed to add arc: ''"

definition sketch_add_rectangle ::
  "pylib \<Rightarrow> remote \<Rightarrow> string \<Rightarrow> string \<Rightarrow> pyfloat \<Rightarrow> pyfloat \<Rightarrow> pyfloat \<Rightarrow> pyfloat \<Rightarrow>
   content list action" where
  "sketch_add_rectangle L R doc_name sketch_name x1 y1 x2 y2 =
     run_script L R
       (script L ''sketch_add_rectangle''
          [PStr doc_name, PStr sketch_name, PFloat x1, PFloat y1, PFloat x2, PFloat y2])
       (''Rectangle added to sketch '' @ quoted sketch_name @ '' from '' @ pair_text L x1 y1 @
        '' to '' @ pair_text L x2 y2)
       ''Failed to add rectangle: ''"

definition sketch_add_polyline ::
  "pylib \<Rightarrow> remote \<Rightarrow> string \<Rightarrow> string \<Rightarrow> pyval list \<Rightarrow> bool \<Rightarrow> content list action" where
  "sketch_add_polyline L R doc_name sketch_name points closed =
     run_script L R
       (script L ''sketch_add_polyline''
          [PStr doc_name, PStr sketch_name, PList points, PBool closed])
       (''Polyline added to sketch '' @ quoted sketch_name @ '' with '' @
        fmt L (PInt (int (length points))) @ '' points, closed: '' @ fmt L (PBool closed))
       ''Failed to add polyline: ''"

definition sketch_add_ellipse ::
  "pylib \<Rightarrow> remote \<Rightarrow> string \<Rightarrow> string \<Rightarrow> pyfloat \<Rightarrow> pyfloat \<Rightarrow> pyfloat \<Rightarrow> pyfloat \<Rightarrow> pyfloat \<Rightarrow>
   content list action" where
  "sketch_add_ellipse L R doc_name sketch_name center_x center_y major_radius minor_radius angle =
     run_script L R
       (script L ''sketch_add_ellipse''
          [PStr doc_name, PStr sketch_name, PFloat center_x, PFloat center_y,
           PFloat major_radius, PFloat minor_radius, PFloat angle])
       (''Ellipse added to sketch '' @ quoted sketch_name @ '' with center at '' @
        pair_text L center_x center_y @ '', major radius '' @ fmt L (PFloat major_radius) @
        '', minor radius '' @ fmt L (PFloat minor_radius))
       ''Failed to add ellipse: ''"

definition sketch_add_regular_polygon ::
  "pylib \<Rightarrow> remote \<Rightarrow> string \<Rightarrow> string \<Rightarrow> pyfloat \<Rightarrow> pyfloat \<Rightarrow> pyfloat \<Rightarrow> int \<Rightarrow> pyfloat \<Rightarrow>
   content list action" where
  "sketch_add_regular_polygon L R doc_name sketch_name center_x center_y radius sides angle =
     run_script L R
       (script L ''sketch_add_regular_polygon''
          [PStr doc_name, PStr sketch_name, PFloat center_x, PFloat center_y, PFloat radius,
           PInt sides, PFloat angle])
       (''Regular '' @ fmt L (PInt sides) @ ''-sided polygon added to sketch '' @
        quoted sketch_name @ '' with center at '' @ pair_text L center_x center_y @
        '' and radius '' @ fmt L (PFloat radius))
       ''Failed to add polygon: ''"

definition sketch_add_constraint ::
  "pylib \<Rightarrow> remote \<Rightarrow> string \<Rightarrow> string \<Rightarrow> string \<Rightarrow> int list \<Rightarrow> pyval \<Rightarrow> pyval \<Rightarrow>
   content list action" where
  "sketch_add_constraint L R doc_name sketch_name constraint_type geometry_indices val
     point_indices =
     run_script L R
       (script L ''sketch_add_constraint''
          [PStr doc_name, PStr sketch_name, PStr constraint_type,
           PList (map PInt geometry_indices), val, point_indices])
       (constraint_type @ '' constraint added to sketch '' @ quoted sketch_name)
       ''Failed to add constraint: ''"

definition sketch_close_edit ::
  "pylib \<Rightarrow> remote \<Rightarrow> string \<Rightarrow> string \<Rightarrow> content list action" where
  "sketch_close_edit L R doc_name sketch_name =
     run_script L R
       (script L ''sketch_close_edit'' [PStr doc_name, PStr sketch_name])
       (''Closed editing mode for sketch '' @ quoted sketch_name)
       ''Failed to close sketch editing: ''"

subsection \<open>All tools\<close>

text \<open>One constructor for each function the source registers with \<^verbatim>\<open>@mcp.tool()\<close>.\<close>

datatype operation =
    CreateDocument string
  | CreateObject string string string pyval pyval
  | EditObject string string pyval
  | DeleteObject string string
  | ExecuteCode string
  | GetView string
  | InsertPartFromLibrary string
  | GetObjects string
  | GetObject string string
  | GetPartsList
  | CreateSketch string string string pyval
  | SketchAddPoint string string pyfloat pyfloat
  | SketchAddLine string string pyfloat pyfloat pyfloat pyfloat
  | SketchAddCircle string string pyfloat pyfloat pyfloat
  | SketchAddArc string string pyfloat pyfloat pyfloat pyfloat pyfloat
  | SketchAddRectangle string string pyfloat pyfloat pyfloat pyfloat
  | SketchAddPolyline string string "pyval list" bool
  | SketchAddEllipse string string pyfloat pyfloat pyfloat pyfloat pyfloat
  | SketchAddRegularPolygon string string pyfloat pyfloat pyfloat int pyfloat
  | SketchAddConstraint string string string "int list" pyval pyval
  | SketchCloseEdit string string

fun invoke :: "pylib \<Rightarrow> remote \<Rightarrow> operation \<Rightarrow> content list action" where
  "invoke L R (CreateDocument name) = create_document L R name"
| "invoke L R (CreateObject d t n a p) = create_object L R d t n a p"
| "invoke L R (EditObject d n p) = edit_object L R d n p"
| "invoke L R (DeleteObject d n) = delete_object L R d n"
| "invoke L R (ExecuteCode code) = execute_code L R code"
| "invoke L R (GetView view_name) = get_view R view_name"
| "invoke L R (InsertPartFromLibrary p) = insert_part_from_library L R p"
| "invoke L R (GetObjects d) = get_objects L R d"
| "invoke L R (GetObject d n) = get_object L R d n"
| "invoke L R GetPartsList = get_parts_list L R"
| "invoke L R (CreateSketch d k pl b) = create_sketch L R d k pl b"
| "invoke L R (SketchAddPoint d k x y) = sketch_add_point L R d k x y"
| "invoke L R (SketchAddLine d k x1 y1 x2 y2) = sketch_add_line L R d k x1 y1 x2 y2"
| "invoke L R (SketchAddCircle d k cx cy r) = sketch_add_circle L R d k cx cy r"
| "invoke L R (SketchAddArc d k cx cy r a b) = sketch_add_arc L R d k cx cy r a b"
| "invoke L R (SketchAddRectangle d k x1 y1 x2 y2) = sketch_add_rectangle L R d k x1 y1 x2 y2"
| "invoke L R (SketchAddPolyline d k ps c) = sketch_add_polyline L R d k ps c"
| "invoke L R (SketchAddEllipse d k cx cy a b g) = sketch_add_ellipse L R d k cx cy a b g"
| "invoke L R (SketchAddRegularPolygon d k cx cy r n g) =
     sketch_add_regular_polygon L R d k cx cy r n g"
| "invoke L R (SketchAddConstraint d k t gs v ps) = sketch_add_constraint L R d k t gs v ps"
| "invoke L R (SketchCloseEdit d k) = sketch_close_edit L R d k"

section \<open>Vocabulary of the properties\<close>

definition is_image :: "content \<Rightarrow> bool" where
  "is_image x = (case x of ImageContent d m \<Rightarrow> True | TextContent t \<Rightarrow> False)"

text \<open>
  The shape every reporting tool gives its envelope: one text item satisfying \<open>P\<close>, alone or
  followed by one item, which outside text-only mode is an image or the explanatory note.
\<close>

definition shaped :: "bool \<Rightarrow> (string \<Rightarrow> bool) \<Rightarrow> content list \<Rightarrow> bool" where
  "shaped only_text P env \<longleftrightarrow>
     (\<exists>t. P t \<and>
        (env = [TextContent t]
         \<or> (\<not> only_text \<and> (\<exists>v. v \<noteq> PNone \<and> env = [TextContent t, ImageContent v ''image/png'']))
         \<or> (\<not> only_text \<and> env = [TextContent t, TextContent note_text])))"

text \<open>
  The text of a first item: it is not the text of the note, unless \<^verbatim>\<open>json.dumps\<close> produced it.
\<close>

definition primary_text :: "pylib \<Rightarrow> string \<Rightarrow> bool" where
  "primary_text L t \<longleftrightarrow> t \<noteq> note_text \<or> (\<exists>v. json_dumps L v = Inr t)"

definition is_get_view :: "operation \<Rightarrow> bool" where
  "is_get_view op = (case op of GetView view_name \<Rightarrow> True | _ \<Rightarrow> False)"


text \<open>
  The two tools whose first item is \<^verbatim>\<open>json.dumps\<close> of the remote's answer and may be
  followed by an image.
\<close>

definition embeds_json :: "operation \<Rightarrow> bool" where
  "embeds_json op = (case op of GetObjects d \<Rightarrow> True | GetObject d n \<Rightarrow> True | _ \<Rightarrow> False)"


subsection \<open>Concrete runs\<close>

text \<open>
  The state of a freshly started process, after \<^verbatim>\<open>main\<close> has stored the command-line flag
  and before anything asked for the connection.
\<close>

definition initial_state :: "bool \<Rightarrow> state" where
  "initial_state only_text =
     \<lparr>freecad_connection = None, only_text_feedback = only_text, heap = (\<lambda>a. None),
      next_id = 0, calls = []\<rparr>"

text \<open>A stand-in for the Python runtime, for evaluating the tools on concrete inputs.\<close>

definition example_lib :: pylib where
  "example_lib =
     \<lparr>str_of = (\<lambda>v. ''<value>''), json_dumps = (\<lambda>v. Inr ''[]''),
      interp_text = (\<lambda>e. ''<error>''), script = (\<lambda>name args. Inr name)\<rparr>"

text \<open>FreeCAD is not running: every call on the proxy raises.\<close>

definition unreachable :: remote where
  "unreachable h q = Inl (Raised ''[Errno 111] Connection refused'')"

text \<open>
  A running FreeCAD whose scripts succeed and print \<open>printed\<close>, whose screenshot request
  answers \<open>shot\<close>, and which refuses every new object as a duplicate.
\<close>

definition remote_with_view :: "string \<Rightarrow> pyval \<Rightarrow> remote" where
  "remote_with_view printed shot h q =
     (case q of
        RPing \<Rightarrow> Inr (PBool True)
      | RCreateDocument name \<Rightarrow>
          Inr (PDict [(''success'', PBool True), (''document_name'', PStr name)])
      | RCreateObject d obj \<Rightarrow>
          Inr (PDict [(''success'', PBool False), (''error'', PStr ''DuplicateName'')])
      | RExecuteCode code \<Rightarrow>
          Inr (PDict [(''success'', PBool True),
                      (''message'', PStr (''Python code execution scheduled. '' @ [CHR 0x0A] @
                                          ''Output: '' @ printed @ [CHR 0x0A]))])
      | RGetActiveScreenshot v \<Rightarrow> Inr shot
      | RGetPartsList \<Rightarrow> Inr (PList [])
      | _ \<Rightarrow> Inr (PDict [(''success'', PBool True), (''object_name'', PStr ''Box'')]))"

section \<open>Sequencing and the remote calls\<close>

lemma seq_Inr_D:
  "seq m f s = (Inr y, s') \<Longrightarrow> \<exists>x s1. m s = (Inr x, s1) \<and> f x s1 = (Inr y, s')"
  by (auto simp: seq_def split: prod.splits sum.splits)

lemma seq_assoc: "seq (seq m f) g = seq m (\<lambda>x. seq (f x) g)"
  by (rule ext) (simp add: seq_def split: prod.splits sum.splits)



lemma lift_Inr_D: "lift r s = (Inr x, s1) \<Longrightarrow> r = Inr x \<and> s1 = s"
  by (simp add: lift_def)

lemma map_sum_Inr_D: "map_sum id f r = Inr t \<Longrightarrow> \<exists>v. r = Inr v \<and> t = f v"
  by (cases r) auto

lemma try_except_D:
  "try_except m (\<lambda>e. ret (h e)) s = (Inr env, s') \<Longrightarrow>
   m s = (Inr env, s') \<or> (\<exists>e. m s = (Inl e, s') \<and> env = h e)"
  by (auto simp: try_except_def ret_def split: prod.splits sum.splits)


lemma call_mode:
  "call R q s = (r, s') \<Longrightarrow> only_text_feedback s' = only_text_feedback s"
  by (auto simp: call_def)

text \<open>
  The guard makes one request or two, changes nothing but the list of requests, and ends
  by returning.
\<close>

lemma get_active_screenshot_cases:
  "get_active_screenshot R c vn s =
     (Inr PNone, s\<lparr>calls := calls s @ [RExecuteCode view_check_script]\<rparr>)
   \<or> (\<exists>v. get_active_screenshot R c vn s =
     (Inr v, s\<lparr>calls := calls s @ [RExecuteCode view_check_script, RGetActiveScreenshot vn]\<rparr>))"
  by (auto simp: get_active_screenshot_def try_except_def seq_def call_def lift_def ret_def
           split: prod.splits sum.splits)

lemma get_active_screenshot_mode:
  "get_active_screenshot R c vn s = (r, s') \<Longrightarrow> only_text_feedback s' = only_text_feedback s"
  using get_active_screenshot_cases [of R c vn s] by auto

lemma get_freecad_connection_mode:
  "get_freecad_connection R s = (r, s') \<Longrightarrow> only_text_feedback s' = only_text_feedback s"
  by (auto simp: get_freecad_connection_def seq_def ret_def raise_def new_connection_def
                 set_connection_def ping_def call_def
           split: option.splits prod.splits sum.splits if_splits)

section \<open>Properties of the envelope builder\<close>

text \<open>What the builder does to the list it is given, in each of its three branches.\<close>

lemma add_screenshot_if_available_result:
  "heap s r = Some xs \<Longrightarrow>
   add_screenshot_if_available r shot s =
     (Inr r, s\<lparr>heap := (heap s)(r \<mapsto> xs @
        (if only_text_feedback s then []
         else if shot \<noteq> PNone then [ImageContent shot ''image/png'']
         else [TextContent note_text]))\<rparr>)"
  by (auto simp: add_screenshot_if_available_def seq_def list_append_def ret_def map_upd_triv)



text \<open>
  Claim C3 says that in text-only mode the missing image is explained by a substituted
  text note. The source guards the note with \<^verbatim>\<open>elif not _only_text_feedback\<close>, so in text-only
  mode nothing is substituted. Running \<^verbatim>\<open>execute_code\<close> in text-only mode against a FreeCAD
  that has a screenshot to give returns the success text alone, and that text is not the
  note.
\<close>

theorem text_only_note_counterexample:
  "only_text_feedback (initial_state True) \<and>
   fst (execute_code example_lib
          (remote_with_view ''Current view supports screenshots: View3DInventor''
             (PStr ''iVBORw0KGgo=''))
          ''pass'' (initial_state True)) =
     Inr [TextContent
            (''Code executed successfully: Python code execution scheduled. '' @ [CHR 0x0A] @
             ''Output: Current view supports screenshots: View3DInventor'' @ [CHR 0x0A])] \<and>
   TextContent note_text \<notin>
     set [TextContent
            (''Code executed successfully: Python code execution scheduled. '' @ [CHR 0x0A] @
             ''Output: Current view supports screenshots: View3DInventor'' @ [CHR 0x0A])]"
  by (simp add: execute_code_def get_freecad_connection_def initial_state_def seq_def ret_def
        new_connection_def set_connection_def ping_def call_def remote_with_view_def
        try_except_def conn_execute_code_def get_active_screenshot_def lift_def dict_get_def
        py_in_def report_def subscript_def fmt_def new_list_def add_screenshot_if_available_def
        returned_def note_text_def sublist_code)

text \<open>
  Claim C3, amended. In text-only mode the builder appends nothing, neither an image item
  nor an explanatory note: it returns the list it was given and leaves the state as it was.
\<close>

theorem text_only_appends_nothing:
  "only_text_feedback s \<Longrightarrow> add_screenshot_if_available r shot s = (Inr r, s)"
  by (simp add: add_screenshot_if_available_def ret_def)

theorem text_only_appends_nothing_witness:
  "only_text_feedback (initial_state True) \<and>
   add_screenshot_if_available 0 (PStr ''iVBORw0KGgo='') (initial_state True) =
     (Inr 0, initial_state True)"
  using text_only_appends_nothing [of "initial_state True" 0 "PStr ''iVBORw0KGgo=''"]
  by (simp add: initial_state_def)

section \<open>Properties of the connection singleton\<close>

text \<open>
  Claim C6. \<^verbatim>\<open>get_freecad_connection\<close> is idempotent. In a state that holds a handle the
  call returns that handle and leaves the state as it was, so no request, and in particular
  no second ping, is made; and after a call that returned a handle, the next call returns
  the same handle (the same object identity) in an unchanged state, whatever the remote
  would answer by then.
\<close>

theorem get_freecad_connection_idempotent:
  "(freecad_connection s = Some c \<longrightarrow> get_freecad_connection R s = (Inr c, s)) \<and>
   (get_freecad_connection R s = (Inr c, s1) \<longrightarrow> get_freecad_connection R' s1 = (Inr c, s1))"
  by (auto simp: get_freecad_connection_def seq_def ret_def raise_def new_connection_def
                 set_connection_def ping_def call_def
           split: option.splits prod.splits sum.splits if_splits)

theorem get_freecad_connection_idempotent_witness:
  "get_freecad_connection (remote_with_view '''' PNone) (initial_state False) =
     (Inr \<lparr>host = ''localhost'', port = 9875, ident = 0\<rparr>,
      (initial_state False)
        \<lparr>freecad_connection := Some \<lparr>host = ''localhost'', port = 9875, ident = 0\<rparr>,
         next_id := 1, calls := [RPing]\<rparr>) \<and>
   get_freecad_connection unreachable
     ((initial_state False)
        \<lparr>freecad_connection := Some \<lparr>host = ''localhost'', port = 9875, ident = 0\<rparr>,
         next_id := 1, calls := [RPing]\<rparr>) =
     (Inr \<lparr>host = ''localhost'', port = 9875, ident = 0\<rparr>,
      (initial_state False)
        \<lparr>freecad_connection := Some \<lparr>host = ''localhost'', port = 9875, ident = 0\<rparr>,
         next_id := 1, calls := [RPing]\<rparr>)"
proof -
  let ?c = "\<lparr>host = ''localhost'', port = 9875, ident = 0\<rparr>"
  let ?s1 = "(initial_state False)
               \<lparr>freecad_connection := Some ?c, next_id := 1, calls := [RPing]\<rparr>"
  have first: "get_freecad_connection (remote_with_view '''' PNone) (initial_state False) =
      (Inr ?c, ?s1)"
    by (simp add: get_freecad_connection_def initial_state_def seq_def ret_def
          new_connection_def set_connection_def ping_def call_def remote_with_view_def)
  with get_freecad_connection_idempotent
         [of "initial_state False" ?c "remote_with_view '''' PNone" ?s1 unreachable]
  show ?thesis by simp
qed

text \<open>
  When the ping returns a false value, the global is reset
  before the exception is raised, and only the identity counter and the list of requests
  record that anything happened.
\<close>

lemma ping_false_discards:
  assumes "freecad_connection s = None" "R (calls s) RPing = Inr alive" "\<not> truthy alive"
  shows "get_freecad_connection R s =
     (Inl (Raised ''Failed to connect to FreeCAD. Make sure the FreeCAD addon is running.''),
      s\<lparr>next_id := Suc (next_id s), calls := calls s @ [RPing]\<rparr>)"
  using assms
  by (simp add: get_freecad_connection_def seq_def ret_def raise_def new_connection_def
                 set_connection_def ping_def call_def)

text \<open>
  Claim C7 says that a failed ping on the first call leaves the singleton slot empty, so
  that a later call builds and pings again. When FreeCAD is not running, the ping does not
  return a false value: the call on the proxy raises. The source resets the global only
  inside \<^verbatim>\<open>if not _freecad_connection.ping()\<close>, so the exception leaves the global holding
  the handle that was never pinged, and the next call returns that handle without a
  request.
\<close>

theorem ping_raises_keeps_handle:
  "get_freecad_connection unreachable (initial_state False) =
     (Inl (Raised ''[Errno 111] Connection refused''),
      (initial_state False)
        \<lparr>freecad_connection := Some \<lparr>host = ''localhost'', port = 9875, ident = 0\<rparr>,
         next_id := 1, calls := [RPing]\<rparr>) \<and>
   get_freecad_connection unreachable
     ((initial_state False)
        \<lparr>freecad_connection := Some \<lparr>host = ''localhost'', port = 9875, ident = 0\<rparr>,
         next_id := 1, calls := [RPing]\<rparr>) =
     (Inr \<lparr>host = ''localhost'', port = 9875, ident = 0\<rparr>,
      (initial_state False)
        \<lparr>freecad_connection := Some \<lparr>host = ''localhost'', port = 9875, ident = 0\<rparr>,
         next_id := 1, calls := [RPing]\<rparr>)"
  by (simp add: get_freecad_connection_def initial_state_def seq_def ret_def
          new_connection_def set_connection_def ping_def call_def unreachable_def)

section \<open>Properties of the screenshot guard\<close>

text \<open>
  The guard always returns, and an answer that carries the line printed for an unsupported
  view, or that reports no success, ends the guard after the one introspection request.
\<close>

lemma get_active_screenshot_never_raises:
  "\<exists>v s'. get_active_screenshot R c vn s = (Inr v, s')"
  using get_active_screenshot_cases [of R c vn s] by auto

lemma unsupported_view_no_request:
  assumes "R (calls s) (RExecuteCode view_check_script) = Inr (PDict d)"
    and "map_of d ''success'' = None \<or> (\<exists>v. map_of d ''success'' = Some v \<and> \<not> truthy v) \<or>
         (\<exists>m. map_of d ''message'' = Some (PStr m) \<and>
              sublist ''Current view does not support screenshots'' m)"
  shows "get_active_screenshot R c vn s =
           (Inr PNone, s\<lparr>calls := calls s @ [RExecuteCode view_check_script]\<rparr>)"
  using assms
  by (auto simp: get_active_screenshot_def try_except_def seq_def call_def lift_def ret_def
        dict_get_def py_in_def split: option.splits)

text \<open>
  Any other successful answer, whatever the script printed, is followed by the screenshot
  request, whose answer the guard returns.
\<close>

lemma other_answer_requests_screenshot:
  assumes "R (calls s) (RExecuteCode view_check_script) = Inr (PDict d)"
    and "map_of d ''success'' = Some v" and "truthy v"
    and "map_of d ''message'' = Some (PStr m)"
    and "\<not> sublist ''Current view does not support screenshots'' m"
    and "R (calls s @ [RExecuteCode view_check_script]) (RGetActiveScreenshot vn) = Inr shot"
  shows "get_active_screenshot R c vn s =
           (Inr shot,
            s\<lparr>calls := calls s @ [RExecuteCode view_check_script, RGetActiveScreenshot vn]\<rparr>)"
  using assms
  by (simp add: get_active_screenshot_def try_except_def seq_def call_def lift_def ret_def
        dict_get_def py_in_def)

text \<open>
  Claim C8 also says that the guard makes no screenshot request when the introspection
  reports that there is no active view. The script prints \<^verbatim>\<open>No active view\<close> for that case,
  but the guard looks only for the line of the unsupported view; against a FreeCAD that
  ran the script and reports its output, the screenshot request is made.
\<close>

theorem no_active_view_requests_screenshot:
  "get_active_screenshot (remote_with_view ''No active view'' PNone)
       \<lparr>host = ''localhost'', port = 9875, ident = 0\<rparr> ''Isometric'' (initial_state False) =
     (Inr PNone,
      (initial_state False)
        \<lparr>calls := [RExecuteCode view_check_script, RGetActiveScreenshot ''Isometric'']\<rparr>)"
  by (simp add: get_active_screenshot_def try_except_def seq_def call_def lift_def ret_def
        dict_get_def py_in_def initial_state_def remote_with_view_def sublist_code(3))

section \<open>The shape of the envelopes\<close>

lemma primary_textI: "t \<noteq> note_text \<Longrightarrow> primary_text L t"
  by (simp add: primary_text_def)

lemma shaped_mono: "shaped ot P env \<Longrightarrow> (\<And>t. P t \<Longrightarrow> Q t) \<Longrightarrow> shaped ot Q env"
  unfolding shaped_def by blast

lemma fresh_list_shaped:
  "P t \<Longrightarrow>
   seq (new_list [TextContent t]) (\<lambda>response.
     seq (add_screenshot_if_available response shot) returned) s = (Inr env, s')
   \<Longrightarrow> shaped (only_text_feedback s) P env"
  by (auto simp: seq_def new_list_def add_screenshot_if_available_result returned_def shaped_def
           split: if_splits)

lemma report_shaped:
  assumes run: "report L res shot ok label s = (Inr env, s')"
    and ok: "\<And>t. ok = Inr t \<Longrightarrow> P t" and label: "\<And>x. P (label @ x)"
  shows "shaped (only_text_feedback s) P env"
proof -
  from run obtain success s1 where
    s1: "lift (subscript res ''success'') s = (Inr success, s1)" and
    rest: "(if truthy success
            then seq (lift ok) (\<lambda>t. seq (new_list [TextContent t]) (\<lambda>response.
                   seq (add_screenshot_if_available response shot) returned))
            else seq (lift (subscript res ''error'')) (\<lambda>error.
                   seq (new_list [TextContent (label @ fmt L error)]) (\<lambda>response.
                   seq (add_screenshot_if_available response shot) returned))) s1 = (Inr env, s')"
    unfolding report_def by (blast dest: seq_Inr_D)
  from s1 have [simp]: "s1 = s" by (simp add: lift_def)
  show ?thesis
  proof (cases "truthy success")
    case True
    with rest obtain t s2 where "lift ok s = (Inr t, s2)" and
      "seq (new_list [TextContent t]) (\<lambda>response.
         seq (add_screenshot_if_available response shot) returned) s2 = (Inr env, s')"
      by (auto dest: seq_Inr_D)
    then show ?thesis using ok fresh_list_shaped [of P t shot s env s']
      by (auto dest: lift_Inr_D)
  next
    case False
    with rest obtain er s2 where "lift (subscript res ''error'') s = (Inr er, s2)" and
      "seq (new_list [TextContent (label @ fmt L er)]) (\<lambda>response.
         seq (add_screenshot_if_available response shot) returned) s2 = (Inr env, s')"
      by (auto dest: seq_Inr_D)
    then show ?thesis using label fresh_list_shaped [of P "label @ fmt L er" shot s env s']
      by (auto dest: lift_Inr_D)
  qed
qed

lemma reporting_body_shaped:
  assumes run: "try_except
           (seq primary (\<lambda>res. seq (get_active_screenshot R c vn) (\<lambda>shot.
              report L res shot (ok res) label)))
           (\<lambda>e. ret [TextContent (label @ str_exn L e)]) s = (Inr env, s')"
    and primary: "\<And>s0 r s1. primary s0 = (r, s1) \<Longrightarrow>
                    only_text_feedback s1 = only_text_feedback s0"
    and ok: "\<And>res t. ok res = Inr t \<Longrightarrow> P t" and label: "\<And>x. P (label @ x)"
  shows "shaped (only_text_feedback s) P env"
proof -
  from try_except_D [OF run] show ?thesis
  proof
    assume "seq primary (\<lambda>res. seq (get_active_screenshot R c vn) (\<lambda>shot.
              report L res shot (ok res) label)) s = (Inr env, s')"
    then obtain res s1 shot s2 where p: "primary s = (Inr res, s1)"
      and g: "get_active_screenshot R c vn s1 = (Inr shot, s2)"
      and r: "report L res shot (ok res) label s2 = (Inr env, s')"
      by (blast dest: seq_Inr_D)
    from primary [OF p] get_active_screenshot_mode [OF g]
    have "only_text_feedback s2 = only_text_feedback s" by simp
    with report_shaped [OF r, of P] ok label show ?thesis by auto
  next
    assume "\<exists>e. seq primary (\<lambda>res. seq (get_active_screenshot R c vn) (\<lambda>shot.
              report L res shot (ok res) label)) s = (Inl e, s') \<and>
              env = [TextContent (label @ str_exn L e)]"
    then show ?thesis using label by (auto simp: shaped_def)
  qed
qed

lemma reporting_tool_shaped:
  assumes run: "seq (get_freecad_connection R) (\<lambda>freecad.
       try_except
           (seq (primary freecad) (\<lambda>res. seq (get_active_screenshot R freecad vn) (\<lambda>shot.
              report L res shot (ok res) label)))
           (\<lambda>e. ret [TextContent (label @ str_exn L e)])) s = (Inr env, s')"
    and primary: "\<And>c s0 r s1. primary c s0 = (r, s1) \<Longrightarrow>
                     only_text_feedback s1 = only_text_feedback s0"
    and ok: "\<And>res t. ok res = Inr t \<Longrightarrow> P t" and label: "\<And>x. P (label @ x)"
  shows "shaped (only_text_feedback s) P env"
proof -
  from run obtain c s1 where c: "get_freecad_connection R s = (Inr c, s1)"
    and b: "try_except
           (seq (primary c) (\<lambda>res. seq (get_active_screenshot R c vn) (\<lambda>shot.
              report L res shot (ok res) label)))
           (\<lambda>e. ret [TextContent (label @ str_exn L e)]) s1 = (Inr env, s')"
    by (blast dest: seq_Inr_D)
  have "shaped (only_text_feedback s1) P env"
    using b primary ok label by (rule reporting_body_shaped)
  with get_freecad_connection_mode [OF c] show ?thesis by simp
qed

lemma not_note_by_first: "c \<noteq> CHR ''N'' \<Longrightarrow> c # x \<noteq> note_text"
  by (simp add: note_text_def)

lemma not_note_by_last: "last t \<noteq> CHR ''.'' \<Longrightarrow> t \<noteq> [] \<Longrightarrow> x @ t \<noteq> note_text"
proof
  assume a: "last t \<noteq> CHR ''.''" "t \<noteq> []" "x @ t = note_text"
  have "last note_text = CHR ''.''" by (simp add: note_text_def)
  with a show False by (metis last_appendR)
qed

lemma create_document_shaped:
  assumes "create_document L R name s = (Inr env, s')"
  shows "\<exists>t. t \<noteq> note_text \<and> env = [TextContent t]"
proof -
  from assms obtain c s1 where
    b: "try_except
         (seq (conn_create_document R c name) (\<lambda>res.
          seq (lift (subscript res ''success'')) (\<lambda>success.
            if truthy success then
              seq (lift (subscript res ''document_name'')) (\<lambda>document_name.
                ret [TextContent
                  (''Document '' @ quoted (fmt L document_name) @ '' created successfully'')])
            else
              seq (lift (subscript res ''error'')) (\<lambda>error.
                ret [TextContent (''Failed to create document: '' @ fmt L error)]))))
         (\<lambda>e. ret [TextContent (''Failed to create document: '' @ str_exn L e)]) s1 = (Inr env, s')"
    unfolding create_document_def by (blast dest: seq_Inr_D)
  from try_except_D [OF b] show ?thesis
    by (auto simp: not_note_by_first ret_def dest!: seq_Inr_D split: if_splits)
qed

lemma create_object_shaped:
  assumes "create_object L R d ty n a p s = (Inr env, s')"
  shows "shaped (only_text_feedback s) (\<lambda>t. t \<noteq> note_text) env"
  by (rule reporting_tool_shaped [OF assms [unfolded create_object_def Let_def]])
     (auto simp: conn_create_object_def call_def not_note_by_first dest!: map_sum_Inr_D)

lemma edit_object_shaped:
  assumes "edit_object L R d n p s = (Inr env, s')"
  shows "shaped (only_text_feedback s) (\<lambda>t. t \<noteq> note_text) env"
  by (rule reporting_tool_shaped [OF assms [unfolded edit_object_def]])
     (auto simp: conn_edit_object_def call_def not_note_by_first dest!: map_sum_Inr_D)

lemma delete_object_shaped:
  assumes "delete_object L R d n s = (Inr env, s')"
  shows "shaped (only_text_feedback s) (\<lambda>t. t \<noteq> note_text) env"
  by (rule reporting_tool_shaped [OF assms [unfolded delete_object_def]])
     (auto simp: conn_delete_object_def call_def not_note_by_first dest!: map_sum_Inr_D)

lemma execute_code_shaped:
  assumes "execute_code L R code s = (Inr env, s')"
  shows "shaped (only_text_feedback s) (\<lambda>t. t \<noteq> note_text) env"
  by (rule reporting_tool_shaped [OF assms [unfolded execute_code_def]])
     (auto simp: conn_execute_code_def call_def not_note_by_first dest!: map_sum_Inr_D)

lemma insert_part_from_library_shaped:
  assumes "insert_part_from_library L R p s = (Inr env, s')"
  shows "shaped (only_text_feedback s) (\<lambda>t. t \<noteq> note_text) env"
  by (rule reporting_tool_shaped [OF assms [unfolded insert_part_from_library_def]])
     (auto simp: conn_insert_part_from_library_def call_def not_note_by_first
           dest!: map_sum_Inr_D)

lemma run_script_shaped:
  assumes "run_script L R code ok label s = (Inr env, s')"
    and "ok \<noteq> note_text" and "\<And>x. label @ x \<noteq> note_text"
  shows "shaped (only_text_feedback s) (\<lambda>t. t \<noteq> note_text) env"
  by (rule reporting_tool_shaped [OF assms(1) [unfolded run_script_def seq_assoc [symmetric]]])
     (auto simp: conn_execute_code_def call_def seq_def lift_def assms split: sum.splits)

lemma listing_body_shaped:
  assumes run: "seq (get_freecad_connection R) (\<lambda>freecad.
       try_except
         (seq (get_active_screenshot R freecad vn) (\<lambda>screenshot.
          seq (fetch freecad) (\<lambda>objs.
          seq (lift (json_dumps L objs)) (\<lambda>t.
          seq (new_list [TextContent t]) (\<lambda>response.
          seq (add_screenshot_if_available response screenshot) returned)))))
         (\<lambda>e. ret [TextContent (label @ str_exn L e)])) s = (Inr env, s')"
    and fetch: "\<And>c s0 r s1. fetch c s0 = (r, s1) \<Longrightarrow>
                   only_text_feedback s1 = only_text_feedback s0"
    and label: "\<And>x. label @ x \<noteq> note_text"
  shows "shaped (only_text_feedback s)
           (primary_text L) env"
proof -
  from run obtain c s1 where c: "get_freecad_connection R s = (Inr c, s1)"
    and b: "try_except
         (seq (get_active_screenshot R c vn) (\<lambda>screenshot.
          seq (fetch c) (\<lambda>objs.
          seq (lift (json_dumps L objs)) (\<lambda>t.
          seq (new_list [TextContent t]) (\<lambda>response.
          seq (add_screenshot_if_available response screenshot) returned)))))
         (\<lambda>e. ret [TextContent (label @ str_exn L e)]) s1 = (Inr env, s')"
    by (blast dest: seq_Inr_D)
  from try_except_D [OF b]
  have "shaped (only_text_feedback s1)
           (primary_text L) env"
  proof
    assume "seq (get_active_screenshot R c vn) (\<lambda>screenshot.
          seq (fetch c) (\<lambda>objs.
          seq (lift (json_dumps L objs)) (\<lambda>t.
          seq (new_list [TextContent t]) (\<lambda>response.
          seq (add_screenshot_if_available response screenshot) returned)))) s1 = (Inr env, s')"
    then obtain shot s2 objs s3 t s4 where g: "get_active_screenshot R c vn s1 = (Inr shot, s2)"
      and f: "fetch c s2 = (Inr objs, s3)"
      and j: "lift (json_dumps L objs) s3 = (Inr t, s4)"
      and r: "seq (new_list [TextContent t]) (\<lambda>response.
                seq (add_screenshot_if_available response shot) returned) s4 = (Inr env, s')"
      by (blast dest: seq_Inr_D)
    from j have "json_dumps L objs = Inr t" "s4 = s3" by (auto dest: lift_Inr_D)
    moreover from get_active_screenshot_mode [OF g] fetch [OF f]
    have "only_text_feedback s3 = only_text_feedback s1" by simp
    ultimately show ?thesis
      using fresh_list_shaped
              [OF _ r, of "primary_text L"]
      by (auto simp: primary_text_def)
  next
    assume "\<exists>e. seq (get_active_screenshot R c vn) (\<lambda>screenshot.
          seq (fetch c) (\<lambda>objs.
          seq (lift (json_dumps L objs)) (\<lambda>t.
          seq (new_list [TextContent t]) (\<lambda>response.
          seq (add_screenshot_if_available response screenshot) returned)))) s1 = (Inl e, s') \<and>
          env = [TextContent (label @ str_exn L e)]"
    then show ?thesis using label by (auto simp: shaped_def primary_text_def)
  qed
  with get_freecad_connection_mode [OF c] show ?thesis by simp
qed

lemma get_objects_shaped:
  assumes "get_objects L R d s = (Inr env, s')"
  shows "shaped (only_text_feedback s)
           (primary_text L) env"
  by (rule listing_body_shaped [OF assms [unfolded get_objects_def]])
     (auto simp: conn_get_objects_def call_def not_note_by_first)

lemma get_object_shaped:
  assumes "get_object L R d n s = (Inr env, s')"
  shows "shaped (only_text_feedback s)
           (primary_text L) env"
  by (rule listing_body_shaped [OF assms [unfolded get_object_def]])
     (auto simp: conn_get_object_def call_def not_note_by_first)

lemma no_parts_not_note:
  "''No parts found in the parts library. You must add parts_library addon.'' \<noteq> note_text"
  by (simp add: note_text_def)

lemma get_parts_list_shaped:
  assumes "get_parts_list L R s = (Inr env, s')"
  shows "\<exists>t. primary_text L t \<and> env = [TextContent t]"
proof -
  from assms have "(\<exists>parts t. json_dumps L parts = Inr t \<and> env = [TextContent t]) \<or>
      env = [TextContent
        ''No parts found in the parts library. You must add parts_library addon.'']"
    by (auto simp: get_parts_list_def seq_def lift_def ret_def
             split: prod.splits sum.splits if_splits)
  then show ?thesis
    using no_parts_not_note unfolding primary_text_def by blast
qed

lemma get_view_cases:
  assumes "get_view R vn s = (Inr env, s')"
  shows "(\<exists>v. v \<noteq> PNone \<and> env = [ImageContent v ''image/png'']) \<or>
         env = [TextContent
           ''Cannot get screenshot in the current view type (such as TechDraw or Spreadsheet)'']"
  using assms unfolding get_view_def
  by (auto dest!: seq_Inr_D simp: ret_def split: if_splits)


lemma sketch_tools_shaped:
  "create_sketch L R d k pl b s = (Inr env, s') \<Longrightarrow>
     shaped (only_text_feedback s) (\<lambda>t. t \<noteq> note_text) env"
  "sketch_add_point L R d k x y s = (Inr env, s') \<Longrightarrow>
     shaped (only_text_feedback s) (\<lambda>t. t \<noteq> note_text) env"
  "sketch_add_line L R d k x1 y1 x2 y2 s = (Inr env, s') \<Longrightarrow>
     shaped (only_text_feedback s) (\<lambda>t. t \<noteq> note_text) env"
  "sketch_add_circle L R d k cx cy r s = (Inr env, s') \<Longrightarrow>
     shaped (only_text_feedback s) (\<lambda>t. t \<noteq> note_text) env"
  "sketch_add_arc L R d k cx cy r a0 a1 s = (Inr env, s') \<Longrightarrow>
     shaped (only_text_feedback s) (\<lambda>t. t \<noteq> note_text) env"
  "sketch_add_rectangle L R d k x1 y1 x2 y2 s = (Inr env, s') \<Longrightarrow>
     shaped (only_text_feedback s) (\<lambda>t. t \<noteq> note_text) env"
  "sketch_add_polyline L R d k ps cl s = (Inr env, s') \<Longrightarrow>
     shaped (only_text_feedback s) (\<lambda>t. t \<noteq> note_text) env"
  "sketch_add_ellipse L R d k cx cy ra rb g s = (Inr env, s') \<Longrightarrow>
     shaped (only_text_feedback s) (\<lambda>t. t \<noteq> note_text) env"
  "sketch_add_regular_polygon L R d k cx cy r n g s = (Inr env, s') \<Longrightarrow>
     shaped (only_text_feedback s) (\<lambda>t. t \<noteq> note_text) env"
  "sketch_close_edit L R d k s = (Inr env, s') \<Longrightarrow>
     shaped (only_text_feedback s) (\<lambda>t. t \<noteq> note_text) env"
  unfolding create_sketch_def sketch_add_point_def sketch_add_line_def sketch_add_circle_def
    sketch_add_arc_def sketch_add_rectangle_def sketch_add_polyline_def sketch_add_ellipse_def
    sketch_add_regular_polygon_def sketch_close_edit_def
  by (erule run_script_shaped; simp add: not_note_by_first)+

lemma sketch_add_constraint_shaped:
  assumes "sketch_add_constraint L R d k t gs v ps s = (Inr env, s')"
  shows "shaped (only_text_feedback s) (\<lambda>t. t \<noteq> note_text) env"
proof (rule run_script_shaped [OF assms [unfolded sketch_add_constraint_def]])
  show "t @ '' constraint added to sketch '' @ quoted k \<noteq> note_text"
    using not_note_by_last [of "quoted k" "t @ '' constraint added to sketch ''"]
    by (simp add: quoted_def)
  show "\<And>x. ''Failed to add constraint: '' @ x \<noteq> note_text"
    by (simp add: not_note_by_first)
qed

lemma invoke_shaped:
  assumes "invoke L R op s = (Inr env, s')" and "\<not> is_get_view op"
  shows "shaped (only_text_feedback s)
           (primary_text L) env"
proof -
  have weak: "shaped (only_text_feedback s) (\<lambda>t. t \<noteq> note_text) env \<Longrightarrow> ?thesis"
    by (erule shaped_mono) (rule primary_textI)
  show ?thesis
  proof (cases op)
    case (CreateDocument name)
    with assms create_document_shaped [of L R name s env s'] show ?thesis
      by (auto simp: shaped_def primary_text_def)
  next
    case (GetObjects d)
    with assms show ?thesis by (auto dest: get_objects_shaped)
  next
    case (GetObject d n)
    with assms show ?thesis by (auto dest: get_object_shaped)
  next
    case GetPartsList
    with assms get_parts_list_shaped [of L R s env s'] show ?thesis
      by (auto simp: shaped_def)
  qed (use assms in \<open>auto simp: is_get_view_def intro!: weak
        dest: create_object_shaped edit_object_shaped delete_object_shaped execute_code_shaped
          insert_part_from_library_shaped get_objects_shaped get_object_shaped
          sketch_tools_shaped sketch_add_constraint_shaped\<close>)
qed

lemma invoke_shaped_plain:
  assumes "invoke L R op s = (Inr env, s')" and "\<not> is_get_view op" and "\<not> embeds_json op"
  shows "shaped (only_text_feedback s) (\<lambda>t. t \<noteq> note_text) env \<or> (\<exists>t. env = [TextContent t])"
proof (cases op)
  case (CreateDocument name)
  with assms create_document_shaped [of L R name s env s'] show ?thesis by auto
next
  case GetPartsList
  with assms get_parts_list_shaped [of L R s env s'] show ?thesis by auto
qed (use assms in \<open>auto simp: is_get_view_def embeds_json_def
        dest: create_object_shaped edit_object_shaped delete_object_shaped execute_code_shaped
          insert_part_from_library_shaped sketch_tools_shaped sketch_add_constraint_shaped\<close>)








section \<open>Scenarios and properties of the tools\<close>

text \<open>The definitions unfolded to run a tool on a concrete remote and state.\<close>

lemmas run_defs = get_freecad_connection_def initial_state_def seq_def ret_def raise_def
  new_connection_def set_connection_def ping_def call_def remote_with_view_def unreachable_def
  try_except_def lift_def dict_get_def py_in_def report_def subscript_def fmt_def str_exn_def
  new_list_def add_screenshot_if_available_def list_append_def returned_def quoted_def
  example_lib_def get_active_screenshot_def sublist_code(3)
  conn_create_document_def conn_create_object_def conn_edit_object_def
  conn_delete_object_def conn_execute_code_def conn_insert_part_from_library_def
  conn_get_objects_def conn_get_object_def conn_get_parts_list_def

text \<open>
  Claim C9. \<^verbatim>\<open>create_document("Foo")\<close>, against a remote that answers the request with a
  dictionary whose \<^verbatim>\<open>success\<close> is true and whose \<^verbatim>\<open>document_name\<close> is \<^verbatim>\<open>"Foo"\<close>, returns
  the single text item \<^verbatim>\<open>Document 'Foo' created successfully\<close>. The session is obtained
  first (found, or built and pinged); after that the only request made is the
  \<^verbatim>\<open>create_document\<close> one, so no screenshot is attempted.
\<close>

theorem create_document_scenario:
  assumes "get_freecad_connection R s = (Inr c, s1)"
    and "R (calls s1) (RCreateDocument ''Foo'') = Inr (PDict d)"
    and "map_of d ''success'' = Some (PBool True)"
    and "map_of d ''document_name'' = Some (PStr ''Foo'')"
  shows "create_document L R ''Foo'' s =
           (Inr [TextContent ''Document 'Foo' created successfully''],
            s1\<lparr>calls := calls s1 @ [RCreateDocument ''Foo'']\<rparr>)"
  using assms
  by (simp add: create_document_def seq_def try_except_def conn_create_document_def call_def
        lift_def subscript_def ret_def fmt_def quoted_def)

theorem create_document_scenario_witness:
  "create_document example_lib (remote_with_view '''' PNone) ''Foo'' (initial_state False) =
     (Inr [TextContent ''Document 'Foo' created successfully''],
      (initial_state False)
        \<lparr>freecad_connection := Some \<lparr>host = ''localhost'', port = 9875, ident = 0\<rparr>,
         next_id := 1, calls := [RPing, RCreateDocument ''Foo'']\<rparr>)"
proof -
  let ?R = "remote_with_view '''' PNone"
  let ?c = "\<lparr>host = ''localhost'', port = 9875, ident = 0\<rparr>"
  let ?s1 = "(initial_state False)
               \<lparr>freecad_connection := Some ?c, next_id := 1, calls := [RPing]\<rparr>"
  let ?d = "[(''success'', PBool True), (''document_name'', PStr ''Foo'')]"
  have h1: "get_freecad_connection ?R (initial_state False) = (Inr ?c, ?s1)"
    by (simp add: get_freecad_connection_def initial_state_def seq_def ret_def
          new_connection_def set_connection_def ping_def call_def remote_with_view_def)
  have h2: "?R (calls ?s1) (RCreateDocument ''Foo'') = Inr (PDict ?d)"
    by (simp add: remote_with_view_def)
  have h3: "map_of ?d ''success'' = Some (PBool True)"
           "map_of ?d ''document_name'' = Some (PStr ''Foo'')" by simp_all
  from create_document_scenario [OF h1 h2 h3, of example_lib]
  show ?thesis by (simp add: initial_state_def)
qed



text \<open>
  Claim C1 says that in text-only mode no operation returns an image item, \<^verbatim>\<open>get_view\<close>
  included. \<^verbatim>\<open>get_view\<close> builds its one-item list itself and never reads
  \<^verbatim>\<open>_only_text_feedback\<close>: in text-only mode, against a FreeCAD that has a screenshot to
  give, it returns the image.
\<close>

theorem get_view_text_only_counterexample:
  "only_text_feedback (initial_state True) \<and>
   fst (invoke example_lib
          (remote_with_view ''Current view supports screenshots: View3DInventor''
             (PStr ''iVBORw0KGgo=''))
          (GetView ''Isometric'') (initial_state True)) =
     Inr [ImageContent (PStr ''iVBORw0KGgo='') ''image/png''] \<and>
   filter is_image [ImageContent (PStr ''iVBORw0KGgo='') ''image/png''] \<noteq> []"
  by (simp add: get_view_def is_image_def run_defs)

text \<open>
  Claim C1, amended. In text-only mode every operation other than \<^verbatim>\<open>get_view\<close> that
  returns an envelope returns a single text item, so zero image items, whatever the remote
  answered and whether or not a screenshot was obtained.
\<close>

theorem text_only_no_image:
  assumes "only_text_feedback s" and "\<not> is_get_view op"
    and "invoke L R op s = (Inr env, s')"
  shows "(\<exists>t. env = [TextContent t]) \<and> filter is_image env = []"
  using invoke_shaped [OF assms(3) assms(2)] assms(1)
  by (auto simp: shaped_def is_image_def)

theorem text_only_no_image_witness:
  "only_text_feedback (initial_state True) \<and> \<not> is_get_view (ExecuteCode ''pass'') \<and>
   (\<exists>t. fst (invoke example_lib
          (remote_with_view ''Current view supports screenshots: View3DInventor''
             (PStr ''iVBORw0KGgo=''))
          (ExecuteCode ''pass'') (initial_state True)) = Inr [TextContent t])"
proof -
  let ?R = "remote_with_view ''Current view supports screenshots: View3DInventor''
             (PStr ''iVBORw0KGgo='')"
  let ?run = "invoke example_lib ?R (ExecuteCode ''pass'') (initial_state True)"
  have h1: "only_text_feedback (initial_state True)" by (simp add: initial_state_def)
  have h2: "\<not> is_get_view (ExecuteCode ''pass'')" by (simp add: is_get_view_def)
  have "\<exists>env. fst ?run = Inr env" by (simp add: execute_code_def run_defs)
  then obtain env where run: "?run = (Inr env, snd ?run)" by (metis prod.collapse)
  from text_only_no_image [OF h1 h2 run] obtain t where "env = [TextContent t]" by blast
  with run have "fst ?run = Inr [TextContent t]" by (metis fst_conv)
  with h1 h2 show ?thesis by blast
qed

text \<open>
  Claim C4. For every operation, every remote behaviour (so every remote result and every
  screenshot outcome) and both feedback modes, an envelope that is returned has at least one
  item and at most one image item, and does not hold both an image item and the
  explanatory note. For \<^verbatim>\<open>get_objects\<close> and \<^verbatim>\<open>get_object\<close> the first item is the output of
  \<^verbatim>\<open>json.dumps\<close>, which is a parameter of the model; the last part is stated for them under
  the fact that \<^verbatim>\<open>json.dumps\<close> never returns the text of the note.
\<close>

theorem envelope_invariants:
  assumes "invoke L R op s = (Inr env, s')"
  shows "env \<noteq> [] \<and> length (filter is_image env) \<le> 1 \<and>
         ((embeds_json op \<longrightarrow> (\<forall>v. json_dumps L v \<noteq> Inr note_text)) \<longrightarrow>
            \<not> ((\<exists>x \<in> set env. is_image x) \<and> TextContent note_text \<in> set env))"
proof (cases "is_get_view op")
  case True
  then obtain vn where "op = GetView vn" by (cases op) (auto simp: is_get_view_def)
  with assms get_view_cases [of R vn s env s'] show ?thesis
    by (auto simp: is_image_def)
next
  case False
  from invoke_shaped [OF assms False]
  have basic: "env \<noteq> [] \<and> length (filter is_image env) \<le> 1"
    by (auto simp: shaped_def is_image_def)
  show ?thesis
  proof (cases "embeds_json op")
    case True
    with invoke_shaped [OF assms False] basic show ?thesis
      by (auto simp: shaped_def is_image_def primary_text_def)
  next
    case no_json: False
    with invoke_shaped_plain [OF assms False] basic show ?thesis
      by (auto simp: shaped_def is_image_def)
  qed
qed

theorem envelope_invariants_witness:
  "fst (invoke example_lib
          (remote_with_view ''Current view supports screenshots: View3DInventor''
             (PStr ''iVBORw0KGgo=''))
          (GetObjects ''Doc'') (initial_state False)) =
     Inr [TextContent ''[]'', ImageContent (PStr ''iVBORw0KGgo='') ''image/png''] \<and>
   embeds_json (GetObjects ''Doc'') \<and>
   (\<forall>v. json_dumps example_lib v \<noteq> Inr note_text) \<and>
   length (filter is_image
     [TextContent ''[]'', ImageContent (PStr ''iVBORw0KGgo='') ''image/png'']) \<le> 1 \<and>
   \<not> ((\<exists>x \<in> set [TextContent ''[]'', ImageContent (PStr ''iVBORw0KGgo='') ''image/png''].
          is_image x) \<and>
      TextContent note_text \<in>
        set [TextContent ''[]'', ImageContent (PStr ''iVBORw0KGgo='') ''image/png''])"
proof -
  let ?R = "remote_with_view ''Current view supports screenshots: View3DInventor''
             (PStr ''iVBORw0KGgo='')"
  let ?run = "invoke example_lib ?R (GetObjects ''Doc'') (initial_state False)"
  let ?env = "[TextContent ''[]'', ImageContent (PStr ''iVBORw0KGgo='') ''image/png'']"
  have r: "fst ?run = Inr ?env" by (simp add: get_objects_def run_defs)
  then have run: "?run = (Inr ?env, snd ?run)" by (metis prod.collapse)
  have j: "embeds_json (GetObjects ''Doc'')"
    "\<forall>v. json_dumps example_lib v \<noteq> Inr note_text"
    by (simp_all add: embeds_json_def example_lib_def note_text_def)
  from envelope_invariants [OF run] r j show ?thesis by blast
qed

text \<open>
  \<^verbatim>\<open>get_parts_list\<close> is the one tool that makes a remote call outside any \<^verbatim>\<open>try\<close>: with
  the session held, an exception raised by that call leaves the tool as it is.
\<close>

lemma get_parts_list_propagates:
  assumes "freecad_connection s = Some c" and "R (calls s) RGetPartsList = Inl e"
  shows "get_parts_list L R s = (Inl e, s\<lparr>calls := calls s @ [RGetPartsList]\<rparr>)"
  using assms
  by (simp add: get_parts_list_def get_freecad_connection_def seq_def ret_def
        conn_get_parts_list_def call_def)




end
